theory Spec2Isabelle
  imports Main
begin

section \<open>The CSV import box: data model\<close>

text \<open>
  The component \<^verbatim>\<open>src/lib/components/csvImportBox.svelte\<close> keeps a map from migration
  id to an import item, reconciles incoming migration events into it and raises toast
  notifications. Strings are character lists; a value that may be \<^verbatim>\<open>undefined\<close> or
  \<^verbatim>\<open>null\<close> in the script is an option, with \<open>None\<close> for the missing value.
\<close>

record ImportItem =
  status :: string
  collection :: "string option"

text \<open>
  \<^verbatim>\<open>ImportItemsMap = Map<string, ImportItem>\<close>: a JavaScript Map keeps its keys in
  insertion order, so the model is an association list. \<open>map_get\<close> is \<^verbatim>\<open>Map.get\<close>;
  \<open>map_set\<close> is \<^verbatim>\<open>Map.set\<close>, which overwrites the value of a key in place and appends
  a new key at the end.
\<close>

type_synonym ImportItemsMap = "(string \<times> ImportItem) list"

fun map_get :: "ImportItemsMap \<Rightarrow> string \<Rightarrow> ImportItem option" where
  "map_get [] k = None"
| "map_get ((k', v) # kvs) k = (if k' = k then Some v else map_get kvs k)"

fun map_set :: "ImportItemsMap \<Rightarrow> string \<Rightarrow> ImportItem \<Rightarrow> ImportItemsMap" where
  "map_set [] k v = [(k, v)]"
| "map_set ((k', v') # kvs) k v =
     (if k' = k then (k, v) # kvs else (k', v') # map_set kvs k v)"

section \<open>Progress and row label\<close>

text \<open>\<^verbatim>\<open>graphSize(status)\<close>, lines 118 to 132: a switch on the status string.\<close>

definition graphSize :: "string \<Rightarrow> nat" where
  "graphSize st =
     (if st = ''pending'' then 10
      else if st = ''processing'' then 30
      else if st = ''uploading'' then 60
      else if st = ''completed'' \<or> st = ''failed'' then 100
      else 30)"

text \<open>
  \<^verbatim>\<open>text(status, collectionName = '')\<close>, lines 134 to 145. The markup is called with
  \<^verbatim>\<open>value.collection\<close>, which may be undefined; the default parameter then gives the
  empty string. An empty string is falsy, so it yields an empty \<open>name\<close> as well.
\<close>

definition text_label :: "string \<Rightarrow> string option \<Rightarrow> string" where
  "text_label st arg =
     (let collectionName = (case arg of None \<Rightarrow> [] | Some n \<Rightarrow> n);
          name = (if collectionName \<noteq> [] then ''<b>'' @ collectionName @ ''</b>'' else [])
      in if st = ''completed'' \<or> st = ''failed'' then ''Import to '' @ name @ '' '' @ st
         else if st = ''processing''
           then ''Importing CSV file'' @ (if name \<noteq> [] then '' to '' @ name else [])
         else ''Preparing CSV for import...'')"

section \<open>Events\<close>

text \<open>
  The \<^verbatim>\<open>errors\<close> field of a payload is untyped in the script (\<^verbatim>\<open>Payload\<close> is an open
  object), and the code tests it twice: \<^verbatim>\<open>!!payload.errors\<close> and
  \<^verbatim>\<open>Array.isArray(payload.errors)\<close>. The model keeps the three shapes these tests
  tell apart: missing, a string, an array of strings.
\<close>

datatype errors_value = ErrorsMissing | ErrorsString string | ErrorsArray "string list"

fun truthy_errors :: "errors_value \<Rightarrow> bool" where
  "truthy_errors ErrorsMissing = False"
| "truthy_errors (ErrorsString s) = (s \<noteq> [])"
| "truthy_errors (ErrorsArray es) = True"

fun isArray :: "errors_value \<Rightarrow> bool" where
  "isArray (ErrorsArray es) = True"
| "isArray _ = False"

fun elements :: "errors_value \<Rightarrow> string list" where
  "elements (ErrorsArray es) = es"
| "elements _ = []"

record Payload =
  payload_id :: string
  source :: string
  payload_status :: string
  resourceId :: "string option"
  errors :: errors_value

text \<open>
  \<^verbatim>\<open>String.prototype.toLowerCase\<close> on the letters A to Z; every other character is
  kept. No character outside A to Z is lowered to one of c, s or v, so the comparison
  with \<^verbatim>\<open>'csv'\<close> is decided by these letters alone.
\<close>

definition lower_char :: "char \<Rightarrow> char" where
  "lower_char c =
     (let n = (of_char c :: nat) in if 65 \<le> n \<and> n \<le> 90 then char_of (n + 32) else c)"

definition toLowerCase :: "string \<Rightarrow> string" where
  "toLowerCase s = map lower_char s"

text \<open>
  \<^verbatim>\<open>String.prototype.split\<close> with a one-character separator: the pieces between the
  separators, so the result always has at least one element (the empty string splits
  into one empty piece).
\<close>

fun split_str :: "char \<Rightarrow> string \<Rightarrow> string list" where
  "split_str sep [] = [[]]"
| "split_str sep (c # cs) =
     (if c = sep then [] # split_str sep cs
      else (case split_str sep cs of
              [] \<Rightarrow> [[c]]
            | piece # pieces \<Rightarrow> (c # piece) # pieces))"

text \<open>Array destructuring: an index past the end gives \<^verbatim>\<open>undefined\<close>.\<close>

definition nth_opt :: "'a list \<Rightarrow> nat \<Rightarrow> 'a option" where
  "nth_opt xs i = (if i < length xs then Some (xs ! i) else None)"

text \<open>
  Lines 72 and 73 of \<^verbatim>\<open>updateOrAddItem\<close>:
  \<^verbatim>\<open>const resourceId = importData.resourceId ?? '';\<close>
  \<^verbatim>\<open>const [databaseId, collectionId] = resourceId.split(':') ?? [];\<close>
\<close>

definition resourceId_parts :: "string option \<Rightarrow> string option \<times> string option" where
  "resourceId_parts rid =
     (let resourceId = (case rid of None \<Rightarrow> [] | Some r \<Rightarrow> r);
          parts = split_str CHR '':'' resourceId
      in (nth_opt parts 0, nth_opt parts 1))"

text \<open>Truthiness of a string that may be undefined or null.\<close>

fun truthy :: "string option \<Rightarrow> bool" where
  "truthy None = False"
| "truthy (Some s) = (s \<noteq> [])"

section \<open>The completion notification\<close>

text \<open>
  A parsed JSON text. \<^verbatim>\<open>JSON.parse\<close> belongs to the language, not to the component,
  so it is a parameter of the model: a function from the text to the parsed value, with
  \<open>None\<close> where it throws a SyntaxError. A number keeps its literal.
\<close>

datatype json =
    JNull
  | JBool bool
  | JNumber string
  | JString string
  | JArray "json list"
  | JObject "(string \<times> json) list"

datatype jsvalue = Undefined | Value json

text \<open>
  \<^verbatim>\<open>v.message\<close> for a parsed \<open>v\<close>: reading a property of \<^verbatim>\<open>null\<close> throws a
  TypeError (\<open>None\<close>); an object gives the value of the key, the last occurrence winning
  as in \<^verbatim>\<open>JSON.parse\<close>, or \<^verbatim>\<open>undefined\<close>; every other value has no such property.
\<close>

fun get_message :: "json \<Rightarrow> jsvalue option" where
  "get_message JNull = None"
| "get_message (JObject kvs) =
     (case map_of (rev kvs) ''message'' of
        None \<Rightarrow> Some Undefined
      | Some v \<Rightarrow> Some (Value v))"
| "get_message _ = Some Undefined"

text \<open>
  \<^verbatim>\<open>JSON.parse(payload.errors[0]).message\<close> inside the try block. On an empty array
  \<^verbatim>\<open>payload.errors[0]\<close> is undefined, and \<^verbatim>\<open>JSON.parse(undefined)\<close> throws.
\<close>

definition parse_first_error :: "(string \<Rightarrow> json option) \<Rightarrow> string list \<Rightarrow> jsvalue option" where
  "parse_first_error JSON_parse es =
     (case es of
        [] \<Rightarrow> None
      | e # _ \<Rightarrow> (case JSON_parse e of None \<Rightarrow> None | Some v \<Rightarrow> get_message v))"

text \<open>What the routine reads of the page: \<^verbatim>\<open>base\<close> and \<^verbatim>\<open>page.params\<close>.\<close>

record page_env =
  base :: string
  region :: string
  project :: string
  collection_param :: "string option"

record button =
  name :: string
  goto_url :: string

record notification =
  ntype :: string
  message :: jsvalue
  isHtml :: bool
  buttons :: "button list option"

datatype effect = AddNotification notification | InvalidateDocuments

text \<open>A value that may be undefined, inside a template literal.\<close>

fun interpolate :: "string option \<Rightarrow> string" where
  "interpolate None = ''undefined''"
| "interpolate (Some s) = s"

definition default_errorMessage :: string where
  "default_errorMessage = ''Import failed. Check your CSV for correct fields and required values.''"

text \<open>
  \<^verbatim>\<open>showCompletionNotification(database, collection, payload)\<close>, lines 29 to 66. The
  result is the list of effects in the order the routine performs them.
\<close>

definition showCompletionNotification ::
  "page_env \<Rightarrow> (string \<Rightarrow> json option) \<Rightarrow> string option \<Rightarrow> string option \<Rightarrow> Payload
     \<Rightarrow> effect list" where
  "showCompletionNotification env JSON_parse database coll payload =
     (let isSuccess = (payload_status payload = ''completed'');
          isError = (\<not> isSuccess \<and> truthy_errors (errors payload))
      in if \<not> isSuccess \<and> \<not> isError then []
         else
           let errorMessage =
                 (if isError \<and> isArray (errors payload)
                  then (case parse_first_error JSON_parse (elements (errors payload)) of
                          None \<Rightarrow> Value (JString default_errorMessage)
                        | Some m \<Rightarrow> m)
                  else Value (JString default_errorMessage));
               type = (if isSuccess then ''success'' else ''error'');
               msg = (if isError then errorMessage
                      else Value (JString ''CSV import finished successfully.''));
               url = base env @ ''/project-'' @ region env @ ''-'' @ project env
                     @ ''/databases/database-'' @ interpolate database
                     @ ''/collection-'' @ interpolate coll
           in AddNotification
                \<lparr>ntype = type, message = msg, isHtml = True,
                 buttons = (if isSuccess \<and> coll \<noteq> collection_param env
                            then Some [\<lparr>name = ''View documents'', goto_url = url\<rparr>]
                            else None)\<rparr>
              # (if isSuccess then [InvalidateDocuments] else []))"

section \<open>Reconciliation\<close>

definition isDone :: "string \<Rightarrow> bool" where
  "isDone s = (s = ''completed'' \<or> s = ''failed'')"

definition isInProgress :: "string \<Rightarrow> bool" where
  "isInProgress s = (s \<in> set [''pending'', ''processing'', ''uploading''])"

text \<open>
  Lines 75 to 87: the collection name the event is written with. The name stored for the
  id is reused when it is truthy; otherwise, when the event has a collection id, the
  name is fetched. \<open>getCollection\<close> is the SDK call followed by \<^verbatim>\<open>.name\<close>, \<open>None\<close> where
  it throws; the catch block then sets the name to null.
\<close>

definition resolve_collectionName ::
  "(string option \<Rightarrow> string option \<Rightarrow> string option) \<Rightarrow> ImportItemsMap \<Rightarrow> Payload
     \<Rightarrow> string option" where
  "resolve_collectionName getCollection items importData =
     (let (databaseId, collectionId) = resourceId_parts (resourceId importData);
          current = map_get items (payload_id importData);
          collectionName = (case current of None \<Rightarrow> None | Some c \<Rightarrow> collection c)
      in if \<not> truthy collectionName \<and> truthy collectionId
         then getCollection databaseId collectionId
         else collectionName)"

text \<open>
  Lines 89 to 104: the function handed to \<^verbatim>\<open>importItems.update\<close>. It runs on the map
  as it is at the time of the write, with the collection name found before.
\<close>

definition update_items :: "Payload \<Rightarrow> string option \<Rightarrow> ImportItemsMap \<Rightarrow> ImportItemsMap" where
  "update_items importData collectionName items =
     (let st = payload_status importData;
          existing = map_get items (payload_id importData);
          shouldSkip =
            ((case existing of None \<Rightarrow> False
              | Some e \<Rightarrow> isDone (status e) \<and> isInProgress st)
             \<or> (case existing of None \<Rightarrow> False | Some e \<Rightarrow> status e = st))
      in if shouldSkip then items
         else map_set items (payload_id importData)
                \<lparr>status = st, collection = collectionName\<rparr>)"

text \<open>
  \<^verbatim>\<open>updateOrAddItem(importData)\<close>, lines 68 to 109, run without another event in
  between: the new map and the effects of the notification routine.
\<close>

definition updateOrAddItem ::
  "page_env \<Rightarrow> (string \<Rightarrow> json option) \<Rightarrow> (string option \<Rightarrow> string option \<Rightarrow> string option)
     \<Rightarrow> ImportItemsMap \<Rightarrow> Payload \<Rightarrow> ImportItemsMap \<times> effect list" where
  "updateOrAddItem env JSON_parse getCollection items importData =
     (if toLowerCase (source importData) \<noteq> ''csv'' then (items, [])
      else
        let st = payload_status importData;
            (databaseId, collectionId) = resourceId_parts (resourceId importData);
            collectionName = resolve_collectionName getCollection items importData;
            items' = update_items importData collectionName items
        in (items',
            if st = ''completed'' \<or> st = ''failed''
            then showCompletionNotification env JSON_parse databaseId collectionId importData
            else []))"

text \<open>Events handled one after the other, each to its end; the effects in order.\<close>

fun process_events ::
  "page_env \<Rightarrow> (string \<Rightarrow> json option) \<Rightarrow> (string option \<Rightarrow> string option \<Rightarrow> string option)
     \<Rightarrow> ImportItemsMap \<Rightarrow> Payload list \<Rightarrow> ImportItemsMap \<times> effect list" where
  "process_events env JSON_parse getCollection items [] = (items, [])"
| "process_events env JSON_parse getCollection items (ev # evs) =
     (let (items', effs) = updateOrAddItem env JSON_parse getCollection items ev;
          (items'', effs') = process_events env JSON_parse getCollection items' evs
      in (items'', effs @ effs'))"

text \<open>The effects that are a toast, for counting them.\<close>

fun is_notification :: "effect \<Rightarrow> bool" where
  "is_notification (AddNotification n) = True"
| "is_notification InvalidateDocuments = False"

section \<open>Lemmas on the model\<close>

lemma toLowerCase_csv: "toLowerCase ''csv'' = ''csv''" by code_simp
lemma toLowerCase_CSV: "toLowerCase ''CSV'' = ''csv''" by code_simp
lemma toLowerCase_json: "toLowerCase ''JSON'' = ''json''" by code_simp

lemma map_get_map_set:
  "map_get (map_set m k v) k' = (if k' = k then Some v else map_get m k')"
  by (induction m k v rule: map_set.induct) auto

lemma update_items_other:
  "payload_id ev \<noteq> i \<Longrightarrow> map_get (update_items ev cn items) i = map_get items i"
  by (simp add: update_items_def Let_def map_get_map_set)

lemma update_items_skip:
  assumes "map_get items (payload_id ev) = Some e"
    and "isDone (status e) \<and> isInProgress (payload_status ev) \<or> status e = payload_status ev"
  shows "update_items ev cn items = items"
  using assms by (auto simp add: update_items_def Let_def)

lemma fst_updateOrAddItem:
  "fst (updateOrAddItem env P G items ev) =
     (if toLowerCase (source ev) \<noteq> ''csv'' then items
      else update_items ev (resolve_collectionName G items ev) items)"
  by (simp add: updateOrAddItem_def Let_def split: prod.splits)

lemma snd_updateOrAddItem:
  "snd (updateOrAddItem env P G items ev) =
     (if toLowerCase (source ev) = ''csv'' \<and> isDone (payload_status ev)
      then showCompletionNotification env P (fst (resourceId_parts (resourceId ev)))
             (snd (resourceId_parts (resourceId ev))) ev
      else [])"
  by (simp add: updateOrAddItem_def Let_def isDone_def split: prod.splits)

lemma fst_process_events_Cons:
  "fst (process_events env P G items (ev # evs)) =
     fst (process_events env P G (fst (updateOrAddItem env P G items ev)) evs)"
  by (simp add: Let_def split: prod.splits)

lemma snd_process_events_Cons:
  "snd (process_events env P G items (ev # evs)) =
     snd (updateOrAddItem env P G items ev)
     @ snd (process_events env P G (fst (updateOrAddItem env P G items ev)) evs)"
  by (simp add: Let_def split: prod.splits)

lemma entry_kept_step:
  assumes "map_get items i = Some e" and "isDone (status e)"
    and "payload_id ev = i \<longrightarrow> isInProgress (payload_status ev) \<or> payload_status ev = status e"
  shows "map_get (fst (updateOrAddItem env P G items ev)) i = Some e"
proof (cases "payload_id ev = i")
  case True
  with assms have "update_items ev cn items = items" for cn
    by (intro update_items_skip [where e = e]) auto
  with assms show ?thesis by (simp add: fst_updateOrAddItem)
next
  case False
  with assms show ?thesis by (simp add: fst_updateOrAddItem update_items_other)
qed

lemma entry_written:
  assumes "toLowerCase (source ev) = ''csv''"
    and "map_get items (payload_id ev) = Some e"
    and "status e \<noteq> payload_status ev"
    and "\<not> (isDone (status e) \<and> isInProgress (payload_status ev))"
  shows "map_get (fst (updateOrAddItem env P G items ev)) (payload_id ev)
           = Some \<lparr>status = payload_status ev,
                   collection = resolve_collectionName G items ev\<rparr>"
  using assms by (auto simp add: fst_updateOrAddItem update_items_def Let_def map_get_map_set)

lemma notifications_of_show:
  "length (filter is_notification (showCompletionNotification env P d c p)) =
     (if payload_status p = ''completed'' \<or> truthy_errors (errors p) then 1 else 0)"
  by (simp add: showCompletionNotification_def Let_def)

lemma show_nothing:
  "payload_status p \<noteq> ''completed'' \<Longrightarrow> \<not> truthy_errors (errors p)
     \<Longrightarrow> showCompletionNotification env P d c p = []"
  by (simp add: showCompletionNotification_def)

lemma notifications_of_update:
  "length (filter is_notification (snd (updateOrAddItem env P G items ev))) =
     (if toLowerCase (source ev) = ''csv''
         \<and> (payload_status ev = ''completed''
            \<or> payload_status ev = ''failed'' \<and> truthy_errors (errors ev))
      then 1 else 0)"
  by (auto simp add: snd_updateOrAddItem notifications_of_show show_nothing isDone_def)

lemma parts_db1_col1: "resourceId_parts (Some ''db1:col1'') = (Some ''db1'', Some ''col1'')"
  by (simp add: resourceId_parts_def nth_opt_def)

lemma text_label_named:
  assumes "n \<noteq> []"
  shows "text_label ''completed'' (Some n) = ''Import to <b>'' @ n @ ''</b> completed''"
    and "text_label ''failed'' (Some n) = ''Import to <b>'' @ n @ ''</b> failed''"
    and "text_label ''processing'' (Some n) = ''Importing CSV file to <b>'' @ n @ ''</b>''"
  using assms by (simp_all add: text_label_def)

lemma text_label_other:
  "st \<notin> {''completed'', ''failed'', ''processing''}
     \<Longrightarrow> text_label st arg = ''Preparing CSV for import...''"
  by (simp add: text_label_def Let_def)

lemma split_str_not_Nil: "split_str sep s \<noteq> []"
  by (induction s) (auto split: list.splits)

lemma split_str_no_sep: "sep \<notin> set s \<Longrightarrow> split_str sep s = [s]"
  by (induction s) auto

lemma split_str_at_sep:
  "sep \<notin> set a \<Longrightarrow> split_str sep (a @ sep # b) = a # split_str sep b"
  by (induction a) auto

lemma length_split_str: "length (split_str sep s) = Suc (count_list s sep)"
  by (induction s) (auto split: list.splits simp: split_str_not_Nil)

lemma count_list_pos: "0 < count_list s x \<longleftrightarrow> x \<in> set s"
  by (induction s) auto

lemma split_str_unfold:
  "split_str sep s =
     takeWhile (\<lambda>c. c \<noteq> sep) s
     # (case dropWhile (\<lambda>c. c \<noteq> sep) s of [] \<Rightarrow> [] | _ # rest \<Rightarrow> split_str sep rest)"
  by (induction s) (auto split: list.splits)

lemma resourceId_parts_Some:
  "resourceId_parts (Some r) =
     (Some (takeWhile (\<lambda>c. c \<noteq> CHR '':'') r),
      (case dropWhile (\<lambda>c. c \<noteq> CHR '':'') r of
         [] \<Rightarrow> None
       | _ # rest \<Rightarrow> Some (takeWhile (\<lambda>c. c \<noteq> CHR '':'') rest)))"
proof (cases "dropWhile (\<lambda>c. c \<noteq> CHR '':'') r")
  case Nil
  have "split_str CHR '':'' r = [takeWhile (\<lambda>c. c \<noteq> CHR '':'') r]"
    by (subst split_str_unfold) (simp only: Nil list.case)
  then show ?thesis
    by (simp only: resourceId_parts_def Let_def option.case Nil list.case)
       (simp add: nth_opt_def)
next
  case (Cons x rest)
  have "split_str CHR '':'' r =
          takeWhile (\<lambda>c. c \<noteq> CHR '':'') r # split_str CHR '':'' rest"
    by (subst split_str_unfold) (simp only: Cons list.case)
  also have "split_str CHR '':'' rest =
          takeWhile (\<lambda>c. c \<noteq> CHR '':'') rest
          # (case dropWhile (\<lambda>c. c \<noteq> CHR '':'') rest of
               [] \<Rightarrow> [] | _ # rest' \<Rightarrow> split_str CHR '':'' rest')"
    by (rule split_str_unfold)
  finally show ?thesis
    by (simp only: resourceId_parts_def Let_def option.case Cons list.case)
       (simp add: nth_opt_def)
qed

lemma get_message_absent:
  "''message'' \<notin> fst ` set kvs \<Longrightarrow> get_message (JObject kvs) = Some Undefined"
  by (simp add: map_of_eq_None_iff [THEN iffD2])

lemma null_error_falls_back:
  assumes "payload_status p = ''failed''" and "errors p = ErrorsArray (e # es)"
    and "JSON_parse e = Some JNull"
  shows "showCompletionNotification env JSON_parse d c p
           = [AddNotification
                \<lparr>ntype = ''error'', message = Value (JString default_errorMessage),
                 isHtml = True, buttons = None\<rparr>]"
  using assms by (simp add: showCompletionNotification_def Let_def parse_first_error_def)

section \<open>Properties\<close>

text \<open>
  Claim C1, as the code has it. Once the map holds an id with status completed or failed,
  no later event for that id whose status is pending, processing or uploading, or equal
  to the stored status, changes the entry, whatever other events arrive in between. An
  event with the other terminal status, or with a status outside the five names, is
  written over the entry: the skip rule asks for an in-progress status.
\<close>

theorem terminal_entry_kept:
  assumes "map_get items i = Some e" and "isDone (status e)"
    and "\<forall>ev \<in> set evs. payload_id ev = i \<longrightarrow>
           isInProgress (payload_status ev) \<or> payload_status ev = status e"
  shows "map_get (fst (process_events env P G items evs)) i = Some e"
  using assms
proof (induction evs arbitrary: items)
  case Nil
  then show ?case by simp
next
  case (Cons ev evs)
  have "map_get (fst (updateOrAddItem env P G items ev)) i = Some e"
    using Cons.prems by (intro entry_kept_step) auto
  then have "map_get (fst (process_events env P G (fst (updateOrAddItem env P G items ev)) evs)) i
               = Some e"
    using Cons.prems by (intro Cons.IH) auto
  then show ?case by (simp only: fst_process_events_Cons)
qed

theorem terminal_entry_kept_witness:
  "map_get [(''m1'', \<lparr>status = ''failed'', collection = None\<rparr>)] ''m1''
     = Some \<lparr>status = ''failed'', collection = None\<rparr>
   \<and> isDone (status \<lparr>status = ''failed'', collection = None\<rparr>)
   \<and> payload_id \<lparr>payload_id = ''m1'', source = ''csv'', payload_status = ''processing'',
          resourceId = Some ''db1:col1'', errors = ErrorsMissing\<rparr> = ''m1''
   \<and> isInProgress (payload_status
         \<lparr>payload_id = ''m1'', source = ''csv'', payload_status = ''processing'',
          resourceId = Some ''db1:col1'', errors = ErrorsMissing\<rparr>)
   \<and> map_get (fst (process_events
        \<lparr>base = ''/console'', region = ''fra'', project = ''p1'', collection_param = None\<rparr>
        (\<lambda>s. None) (\<lambda>d c. Some ''Users'')
        [(''m1'', \<lparr>status = ''failed'', collection = None\<rparr>)]
        [\<lparr>payload_id = ''m1'', source = ''csv'', payload_status = ''processing'',
          resourceId = Some ''db1:col1'', errors = ErrorsMissing\<rparr>])) ''m1''
     = Some \<lparr>status = ''failed'', collection = None\<rparr>"
  using terminal_entry_kept [of "[(''m1'', \<lparr>status = ''failed'', collection = None\<rparr>)]" "''m1''"
    "\<lparr>status = ''failed'', collection = None\<rparr>"
    "[\<lparr>payload_id = ''m1'', source = ''csv'', payload_status = ''processing'',
          resourceId = Some ''db1:col1'', errors = ErrorsMissing\<rparr>]"
    "\<lparr>base = ''/console'', region = ''fra'', project = ''p1'', collection_param = None\<rparr>"
    "\<lambda>s. None" "\<lambda>d c. Some ''Users''"]
  by (simp add: isDone_def isInProgress_def)

text \<open>
  Claim C1 in its unrestricted form fails: a completed entry followed by a failed event,
  and by an event with an unknown status; both are written.
\<close>

theorem terminal_overwritten_counterexample:
  "map_get (fst (updateOrAddItem
        \<lparr>base = ''/console'', region = ''fra'', project = ''p1'', collection_param = None\<rparr>
        (\<lambda>s. None) (\<lambda>d c. None)
        [(''m1'', \<lparr>status = ''completed'', collection = None\<rparr>)]
        \<lparr>payload_id = ''m1'', source = ''csv'', payload_status = ''failed'',
          resourceId = None, errors = ErrorsMissing\<rparr>)) ''m1''
     = Some \<lparr>status = ''failed'', collection = None\<rparr>
   \<and> map_get (fst (updateOrAddItem
        \<lparr>base = ''/console'', region = ''fra'', project = ''p1'', collection_param = None\<rparr>
        (\<lambda>s. None) (\<lambda>d c. None)
        [(''m1'', \<lparr>status = ''completed'', collection = None\<rparr>)]
        \<lparr>payload_id = ''m1'', source = ''csv'', payload_status = ''cancelled'',
          resourceId = None, errors = ErrorsMissing\<rparr>)) ''m1''
     = Some \<lparr>status = ''cancelled'', collection = None\<rparr>"
  by (simp add: fst_updateOrAddItem toLowerCase_csv update_items_def isDone_def
        isInProgress_def resolve_collectionName_def resourceId_parts_def nth_opt_def)

text \<open>
  Claim C2, as the code has it. The call of the notification routine stands after the
  write and does not ask whether the write was skipped: every csv event reporting
  completed emits one toast, and every csv event reporting failed with an errors field
  present emits one, whatever the map holds. So a sequence of events emits as many
  toasts as it has such events, repeated ones included.
\<close>

theorem notification_per_terminal_event:
  "length (filter is_notification (snd (process_events env P G items evs))) =
     length (filter (\<lambda>ev. toLowerCase (source ev) = ''csv''
                         \<and> (payload_status ev = ''completed''
                            \<or> payload_status ev = ''failed'' \<and> truthy_errors (errors ev)))
               evs)"
proof (induction evs arbitrary: items)
  case Nil
  show ?case by simp
next
  case (Cons ev evs)
  show ?case
    by (simp only: snd_process_events_Cons filter_append length_append
          notifications_of_update Cons.IH filter.simps list.size split: if_splits) simp
qed

theorem notification_per_terminal_event_witness:
  "length (filter is_notification (snd (process_events
        \<lparr>base = ''/console'', region = ''fra'', project = ''p1'', collection_param = None\<rparr>
        (\<lambda>s. None) (\<lambda>d c. Some ''Users'') []
        (replicate 3 \<lparr>payload_id = ''m1'', source = ''CSV'', payload_status = ''completed'',
          resourceId = Some ''db1:col1'', errors = ErrorsMissing\<rparr>)))) = 3"
  using notification_per_terminal_event
    [of "\<lparr>base = ''/console'', region = ''fra'', project = ''p1'', collection_param = None\<rparr>"
        "\<lambda>s. None" "\<lambda>d c. Some ''Users''" "[]"
        "replicate 3 \<lparr>payload_id = ''m1'', source = ''CSV'', payload_status = ''completed'',
          resourceId = Some ''db1:col1'', errors = ErrorsMissing\<rparr>"]
  by (simp add: toLowerCase_CSV numeral_3_eq_3)

text \<open>
  Claim C2 in its once-only form fails: the same completed event twice for one id; the
  second leaves the map as it is and still raises its toast and its invalidation.
\<close>

theorem repeated_completed_counterexample:
  "snd (process_events
        \<lparr>base = ''/console'', region = ''fra'', project = ''p1'', collection_param = None\<rparr>
        (\<lambda>s. None) (\<lambda>d c. Some ''Users'') []
        [\<lparr>payload_id = ''m1'', source = ''csv'', payload_status = ''completed'',
           resourceId = Some ''db1:col1'', errors = ErrorsMissing\<rparr>,
         \<lparr>payload_id = ''m1'', source = ''csv'', payload_status = ''completed'',
           resourceId = Some ''db1:col1'', errors = ErrorsMissing\<rparr>])
   = [AddNotification
        \<lparr>ntype = ''success'', message = Value (JString ''CSV import finished successfully.''),
         isHtml = True,
         buttons = Some [\<lparr>name = ''View documents'',
           goto_url = ''/console/project-fra-p1/databases/database-db1/collection-col1''\<rparr>]\<rparr>,
      InvalidateDocuments,
      AddNotification
        \<lparr>ntype = ''success'', message = Value (JString ''CSV import finished successfully.''),
         isHtml = True,
         buttons = Some [\<lparr>name = ''View documents'',
           goto_url = ''/console/project-fra-p1/databases/database-db1/collection-col1''\<rparr>]\<rparr>,
      InvalidateDocuments]"
  by (simp add: snd_process_events_Cons snd_updateOrAddItem toLowerCase_csv isDone_def
        parts_db1_col1 showCompletionNotification_def Let_def del: process_events.simps(2))

text \<open>
  Claim C3, as the code has it. An event whose status equals the status stored for its id
  leaves the whole map unchanged, also when the collection name has just been resolved
  for the first time: the skip rule compares the statuses only.
\<close>

theorem same_status_skipped:
  assumes "map_get items (payload_id ev) = Some e" and "status e = payload_status ev"
  shows "fst (updateOrAddItem env P G items ev) = items"
  using assms by (simp add: fst_updateOrAddItem update_items_skip [where e = e])

theorem same_status_skipped_witness:
  "map_get [(''m1'', \<lparr>status = ''pending'', collection = Some ''Users''\<rparr>)] ''m1''
     = Some \<lparr>status = ''pending'', collection = Some ''Users''\<rparr>
   \<and> fst (updateOrAddItem
        \<lparr>base = ''/console'', region = ''fra'', project = ''p1'', collection_param = None\<rparr>
        (\<lambda>s. None) (\<lambda>d c. None)
        [(''m1'', \<lparr>status = ''pending'', collection = Some ''Users''\<rparr>)]
        \<lparr>payload_id = ''m1'', source = ''csv'', payload_status = ''pending'',
          resourceId = Some ''db1:col1'', errors = ErrorsMissing\<rparr>)
     = [(''m1'', \<lparr>status = ''pending'', collection = Some ''Users''\<rparr>)]"
  using same_status_skipped
    [of "[(''m1'', \<lparr>status = ''pending'', collection = Some ''Users''\<rparr>)]"
        "\<lparr>payload_id = ''m1'', source = ''csv'', payload_status = ''pending'',
          resourceId = Some ''db1:col1'', errors = ErrorsMissing\<rparr>"
        "\<lparr>status = ''pending'', collection = Some ''Users''\<rparr>"
        "\<lparr>base = ''/console'', region = ''fra'', project = ''p1'', collection_param = None\<rparr>"
        "\<lambda>s. None" "\<lambda>d c. None"]
  by simp

text \<open>
  Claim C3 fails in its exception: an entry without a name, the same status again, and
  a lookup that now finds the name; the name is resolved and the entry is not written.
\<close>

theorem name_not_written_counterexample:
  "resolve_collectionName (\<lambda>d c. Some ''Users'')
        [(''m1'', \<lparr>status = ''processing'', collection = None\<rparr>)]
        \<lparr>payload_id = ''m1'', source = ''csv'', payload_status = ''processing'',
          resourceId = Some ''db1:col1'', errors = ErrorsMissing\<rparr> = Some ''Users''
   \<and> map_get (fst (updateOrAddItem
        \<lparr>base = ''/console'', region = ''fra'', project = ''p1'', collection_param = None\<rparr>
        (\<lambda>s. None) (\<lambda>d c. Some ''Users'')
        [(''m1'', \<lparr>status = ''processing'', collection = None\<rparr>)]
        \<lparr>payload_id = ''m1'', source = ''csv'', payload_status = ''processing'',
          resourceId = Some ''db1:col1'', errors = ErrorsMissing\<rparr>)) ''m1''
     = Some \<lparr>status = ''processing'', collection = None\<rparr>"
  by (simp add: fst_updateOrAddItem toLowerCase_csv update_items_def
        resolve_collectionName_def parts_db1_col1)

text \<open>
  Claim C4, as the code has it. The routine emits a toast if and only if the status is
  completed or the errors field of the payload is present (truthy): an array counts
  even when it is empty. When the status is not completed and the errors field is
  missing, nothing is emitted.
\<close>

theorem notification_iff:
  "(\<exists>n. AddNotification n \<in> set (showCompletionNotification env P d c p))
     \<longleftrightarrow> (payload_status p = ''completed'' \<or> truthy_errors (errors p))"
  by (auto simp add: showCompletionNotification_def Let_def)

theorem notification_iff_witness:
  "(\<exists>n. AddNotification n \<in> set (showCompletionNotification
        \<lparr>base = ''/console'', region = ''fra'', project = ''p1'', collection_param = None\<rparr>
        (\<lambda>s. None) (Some ''db1'') (Some ''col1'')
        \<lparr>payload_id = ''m1'', source = ''csv'', payload_status = ''failed'',
          resourceId = Some ''db1:col1'', errors = ErrorsString ''quota exceeded''\<rparr>))
   \<and> \<not> (\<exists>n. AddNotification n \<in> set (showCompletionNotification
        \<lparr>base = ''/console'', region = ''fra'', project = ''p1'', collection_param = None\<rparr>
        (\<lambda>s. None) (Some ''db1'') (Some ''col1'')
        \<lparr>payload_id = ''m1'', source = ''csv'', payload_status = ''failed'',
          resourceId = Some ''db1:col1'', errors = ErrorsMissing\<rparr>))"
  using notification_iff
    [of "\<lparr>base = ''/console'', region = ''fra'', project = ''p1'', collection_param = None\<rparr>"
        "\<lambda>s. None" "Some ''db1''" "Some ''col1''"
        "\<lparr>payload_id = ''m1'', source = ''csv'', payload_status = ''failed'',
          resourceId = Some ''db1:col1'', errors = ErrorsString ''quota exceeded''\<rparr>"]
    notification_iff
    [of "\<lparr>base = ''/console'', region = ''fra'', project = ''p1'', collection_param = None\<rparr>"
        "\<lambda>s. None" "Some ''db1''" "Some ''col1''"
        "\<lparr>payload_id = ''m1'', source = ''csv'', payload_status = ''failed'',
          resourceId = Some ''db1:col1'', errors = ErrorsMissing\<rparr>"]
  by simp

text \<open>
  Claim C4 fails where the errors array is empty: a failed payload without any error
  entry; the toast is emitted, with the default text.
\<close>

theorem empty_errors_notified_counterexample:
  "elements (errors \<lparr>payload_id = ''m1'', source = ''csv'', payload_status = ''failed'',
          resourceId = Some ''db1:col1'', errors = ErrorsArray []\<rparr>) = []
   \<and> showCompletionNotification
        \<lparr>base = ''/console'', region = ''fra'', project = ''p1'', collection_param = None\<rparr>
        (\<lambda>s. None) (Some ''db1'') (Some ''col1'')
        \<lparr>payload_id = ''m1'', source = ''csv'', payload_status = ''failed'',
          resourceId = Some ''db1:col1'', errors = ErrorsArray []\<rparr>
     = [AddNotification
          \<lparr>ntype = ''error'',
           message = Value (JString
             ''Import failed. Check your CSV for correct fields and required values.''),
           isHtml = True, buttons = None\<rparr>]"
  by (simp add: showCompletionNotification_def Let_def parse_first_error_def
        default_errorMessage_def)

text \<open>
  Claim C5. The progress percentage is a total function of the status string: 10 for
  pending, 30 for processing, 60 for uploading, 100 for completed and for failed, and 30
  for every other string.
\<close>

theorem graphSize_table:
  "graphSize ''pending'' = 10 \<and> graphSize ''processing'' = 30 \<and>
   graphSize ''uploading'' = 60 \<and> graphSize ''completed'' = 100 \<and>
   graphSize ''failed'' = 100 \<and>
   (st \<notin> {''pending'', ''processing'', ''uploading'', ''completed'', ''failed''}
      \<longrightarrow> graphSize st = 30)"
  by (simp add: graphSize_def)

theorem graphSize_table_witness:
  "''cancelled'' \<notin> {''pending'', ''processing'', ''uploading'', ''completed'', ''failed''}
   \<and> graphSize ''cancelled'' = 30 \<and> graphSize ''pending'' = 10"
  using graphSize_table [of "''cancelled''"] by simp

text \<open>
  Claim C6. The row label for a terminal status is to leave the collection clause out
  when the name is unknown, as the processing label does. The processing branch drops
  its whole clause; the terminal branch keeps the word before the name and the blank
  after it, so the label of a completed import without a name reads
  \<^verbatim>\<open>Import to  completed\<close>, with two blanks.
\<close>

theorem text_label_unknown_name:
  "text_label ''completed'' None = ''Import to  completed''
   \<and> text_label ''failed'' None = ''Import to  failed''
   \<and> text_label ''processing'' None = ''Importing CSV file''"
  by (simp add: text_label_def)

text \<open>
  Claim C7. For a failed payload whose errors array starts with an entry that
  \<^verbatim>\<open>JSON.parse\<close> rejects, the toast that is emitted is the error toast with the fixed
  default message.
\<close>

theorem unparseable_error_falls_back:
  assumes "payload_status p = ''failed''" and "errors p = ErrorsArray (e # es)"
    and "JSON_parse e = None"
  shows "showCompletionNotification env JSON_parse d c p
           = [AddNotification
                \<lparr>ntype = ''error'', message = Value (JString default_errorMessage),
                 isHtml = True, buttons = None\<rparr>]"
  using assms by (simp add: showCompletionNotification_def Let_def parse_first_error_def)

theorem unparseable_error_falls_back_witness:
  "payload_status \<lparr>payload_id = ''m1'', source = ''csv'', payload_status = ''failed'',
          resourceId = Some ''db1:col1'', errors = ErrorsArray [''not json'']\<rparr> = ''failed''
   \<and> errors \<lparr>payload_id = ''m1'', source = ''csv'', payload_status = ''failed'',
          resourceId = Some ''db1:col1'', errors = ErrorsArray [''not json'']\<rparr>
       = ErrorsArray (''not json'' # [])
   \<and> (\<lambda>s. if s = ''{}'' then Some (JObject []) else None) ''not json'' = None
   \<and> showCompletionNotification
        \<lparr>base = ''/console'', region = ''fra'', project = ''p1'', collection_param = None\<rparr>
        (\<lambda>s. if s = ''{}'' then Some (JObject []) else None) (Some ''db1'') (Some ''col1'')
        \<lparr>payload_id = ''m1'', source = ''csv'', payload_status = ''failed'',
          resourceId = Some ''db1:col1'', errors = ErrorsArray [''not json'']\<rparr>
     = [AddNotification
          \<lparr>ntype = ''error'',
           message = Value (JString
             ''Import failed. Check your CSV for correct fields and required values.''),
           isHtml = True, buttons = None\<rparr>]"
  using unparseable_error_falls_back
    [of "\<lparr>payload_id = ''m1'', source = ''csv'', payload_status = ''failed'',
          resourceId = Some ''db1:col1'', errors = ErrorsArray [''not json'']\<rparr>"
        "''not json''" "[]" "\<lambda>s. if s = ''{}'' then Some (JObject []) else None"
        "\<lparr>base = ''/console'', region = ''fra'', project = ''p1'', collection_param = None\<rparr>"
        "Some ''db1''" "Some ''col1''"]
  by (simp add: default_errorMessage_def)

text \<open>
  Claim C8, as the code has it. The resource id is split at its colons and the first two
  pieces are taken. The database id is the first piece, the text before the first colon,
  and is never undefined: it is the empty string when the resource id is absent and the
  whole text when there is no colon. The collection id is the second piece, the text
  between the first colon and the next one (or the end), and is undefined exactly when
  the resource id is absent or has no colon. A text of the form
  \<^verbatim>\<open>databaseId:collectionId\<close> gives its two parts, and whatever follows a second colon
  is dropped.
\<close>

theorem resourceId_parts_spec:
  "fst (resourceId_parts rid) \<noteq> None
   \<and> (snd (resourceId_parts rid) = None
        \<longleftrightarrow> (case rid of None \<Rightarrow> True | Some r \<Rightarrow> CHR '':'' \<notin> set r))
   \<and> resourceId_parts None = (Some [], None)
   \<and> (CHR '':'' \<notin> set s \<longrightarrow> resourceId_parts (Some s) = (Some s, None))
   \<and> (CHR '':'' \<notin> set a \<and> CHR '':'' \<notin> set b
        \<longrightarrow> resourceId_parts (Some (a @ CHR '':'' # b)) = (Some a, Some b))
   \<and> (CHR '':'' \<notin> set a \<and> CHR '':'' \<notin> set b
        \<longrightarrow> resourceId_parts (Some (a @ CHR '':'' # b @ CHR '':'' # t)) = (Some a, Some b))
   \<and> resourceId_parts (Some r) =
       (Some (takeWhile (\<lambda>c. c \<noteq> CHR '':'') r),
        (case dropWhile (\<lambda>c. c \<noteq> CHR '':'') r of
           [] \<Rightarrow> None
         | _ # rest \<Rightarrow> Some (takeWhile (\<lambda>c. c \<noteq> CHR '':'') rest)))"
proof -
  have one: "fst (resourceId_parts rid) \<noteq> None"
    by (simp add: resourceId_parts_def nth_opt_def Let_def split_str_not_Nil)
  have two: "snd (resourceId_parts rid) = None
        \<longleftrightarrow> (case rid of None \<Rightarrow> True | Some r \<Rightarrow> CHR '':'' \<notin> set r)"
    by (cases rid)
       (simp_all add: resourceId_parts_def nth_opt_def Let_def length_split_str
          count_list_pos)
  have three: "resourceId_parts None = (Some [], None)"
    by (simp add: resourceId_parts_def nth_opt_def)
  have four: "CHR '':'' \<notin> set s \<longrightarrow> resourceId_parts (Some s) = (Some s, None)"
    by (simp add: resourceId_parts_def nth_opt_def split_str_no_sep)
  have five: "CHR '':'' \<notin> set a \<and> CHR '':'' \<notin> set b
        \<longrightarrow> resourceId_parts (Some (a @ CHR '':'' # b)) = (Some a, Some b)"
    by (simp add: resourceId_parts_def nth_opt_def split_str_at_sep split_str_no_sep)
  have six: "CHR '':'' \<notin> set a \<and> CHR '':'' \<notin> set b
        \<longrightarrow> resourceId_parts (Some (a @ CHR '':'' # b @ CHR '':'' # t)) = (Some a, Some b)"
    by (simp add: resourceId_parts_def nth_opt_def split_str_at_sep)
  note seven = resourceId_parts_Some [of r]
  from one two three four five six seven show ?thesis by blast
qed

theorem resourceId_parts_spec_witness:
  "CHR '':'' \<notin> set ''db1'' \<and> CHR '':'' \<notin> set ''col1''
   \<and> resourceId_parts (Some (''db1'' @ CHR '':'' # ''col1'')) = (Some ''db1'', Some ''col1'')
   \<and> resourceId_parts (Some (''db1'' @ CHR '':'' # ''col1'' @ CHR '':'' # ''x:y''))
       = (Some ''db1'', Some ''col1'')
   \<and> resourceId_parts (Some ''db1'') = (Some ''db1'', None)
   \<and> fst (resourceId_parts (Some ''db1'')) \<noteq> None
   \<and> resourceId_parts (Some ''a:b:c'') = (Some ''a'', Some ''b'')"
  using resourceId_parts_spec [of "Some ''db1''" "''db1''" "''db1''" "''col1''" "''x:y''" "''a:b:c''"]
  by simp

text \<open>
  Claim C8 fails for the database id: an absent resource id and one without a colon
  leave a database id that is defined; with two colons both ids are defined.
\<close>

theorem resourceId_absent_counterexample:
  "resourceId_parts None = (Some [], None) \<and> resourceId_parts None \<noteq> (None, None)
   \<and> resourceId_parts (Some ''db1'') = (Some ''db1'', None)
   \<and> resourceId_parts (Some ''db1'') \<noteq> (None, None)
   \<and> resourceId_parts (Some ''a:b:c'') = (Some ''a'', Some ''b'')"
  by (simp add: resourceId_parts_def nth_opt_def)

text \<open>
  Claim C9. An event whose source, in lower case, is not csv leaves the map unchanged and
  has no effect: no toast, no invalidation.
\<close>

theorem other_source_ignored:
  "toLowerCase (source ev) \<noteq> ''csv'' \<Longrightarrow> updateOrAddItem env P G items ev = (items, [])"
  by (simp add: updateOrAddItem_def)

theorem other_source_ignored_witness:
  "toLowerCase (source \<lparr>payload_id = ''m1'', source = ''JSON'', payload_status = ''completed'',
          resourceId = Some ''db1:col1'', errors = ErrorsMissing\<rparr>) \<noteq> ''csv''
   \<and> updateOrAddItem
        \<lparr>base = ''/console'', region = ''fra'', project = ''p1'', collection_param = None\<rparr>
        (\<lambda>s. None) (\<lambda>d c. Some ''Users'')
        [(''m0'', \<lparr>status = ''pending'', collection = None\<rparr>)]
        \<lparr>payload_id = ''m1'', source = ''JSON'', payload_status = ''completed'',
          resourceId = Some ''db1:col1'', errors = ErrorsMissing\<rparr>
     = ([(''m0'', \<lparr>status = ''pending'', collection = None\<rparr>)], [])"
  using other_source_ignored
    [of "\<lparr>payload_id = ''m1'', source = ''JSON'', payload_status = ''completed'',
          resourceId = Some ''db1:col1'', errors = ErrorsMissing\<rparr>"
        "\<lparr>base = ''/console'', region = ''fra'', project = ''p1'', collection_param = None\<rparr>"
        "\<lambda>s. None" "\<lambda>d c. Some ''Users''"
        "[(''m0'', \<lparr>status = ''pending'', collection = None\<rparr>)]"]
  by (simp add: toLowerCase_json)

text \<open>
  Claim C10, as the code has it. For a failed payload whose first error entry parses to
  a value without a \<^verbatim>\<open>message\<close> field, the error toast is emitted with an undefined
  message when the value is not null: an object without that key, a string, a number, a
  boolean or an array. When the value is null, reading the property throws inside the
  try block and the toast keeps the default message.
\<close>

theorem missing_message_result:
  assumes "payload_status p = ''failed''" and "errors p = ErrorsArray (e # es)"
    and "JSON_parse e = Some v"
    and "case v of JObject kvs \<Rightarrow> ''message'' \<notin> fst ` set kvs | _ \<Rightarrow> True"
  shows "showCompletionNotification env JSON_parse d c p
           = [AddNotification
                \<lparr>ntype = ''error'',
                 message = (if v = JNull then Value (JString default_errorMessage)
                            else Undefined),
                 isHtml = True, buttons = None\<rparr>]"
proof -
  have "get_message v = (if v = JNull then None else Some Undefined)"
    using assms(4) by (cases v) (simp_all add: map_of_eq_None_iff [THEN iffD2])
  with assms(1-3) show ?thesis
    by (simp add: showCompletionNotification_def Let_def parse_first_error_def)
qed

theorem missing_message_result_witness:
  "payload_status \<lparr>payload_id = ''m1'', source = ''csv'', payload_status = ''failed'',
          resourceId = Some ''db1:col1'', errors = ErrorsArray [''{}'', ''x'']\<rparr> = ''failed''
   \<and> errors \<lparr>payload_id = ''m1'', source = ''csv'', payload_status = ''failed'',
          resourceId = Some ''db1:col1'', errors = ErrorsArray [''{}'', ''x'']\<rparr>
       = ErrorsArray (''{}'' # [''x''])
   \<and> (\<lambda>s. if s = ''{}'' then Some (JObject []) else if s = ''7'' then Some (JNumber ''7'')
            else None) ''{}'' = Some (JObject [])
   \<and> ''message'' \<notin> fst ` set ([] :: (string \<times> json) list)
   \<and> showCompletionNotification
        \<lparr>base = ''/console'', region = ''fra'', project = ''p1'', collection_param = None\<rparr>
        (\<lambda>s. if s = ''{}'' then Some (JObject []) else if s = ''7'' then Some (JNumber ''7'')
            else None)
        (Some ''db1'') (Some ''col1'')
        \<lparr>payload_id = ''m1'', source = ''csv'', payload_status = ''failed'',
          resourceId = Some ''db1:col1'', errors = ErrorsArray [''{}'', ''x'']\<rparr>
     = [AddNotification
          \<lparr>ntype = ''error'', message = Undefined, isHtml = True, buttons = None\<rparr>]
   \<and> showCompletionNotification
        \<lparr>base = ''/console'', region = ''fra'', project = ''p1'', collection_param = None\<rparr>
        (\<lambda>s. if s = ''{}'' then Some (JObject []) else if s = ''7'' then Some (JNumber ''7'')
            else None)
        (Some ''db1'') (Some ''col1'')
        \<lparr>payload_id = ''m1'', source = ''csv'', payload_status = ''failed'',
          resourceId = Some ''db1:col1'', errors = ErrorsArray [''7'']\<rparr>
     = [AddNotification
          \<lparr>ntype = ''error'', message = Undefined, isHtml = True, buttons = None\<rparr>]"
  using missing_message_result
    [of "\<lparr>payload_id = ''m1'', source = ''csv'', payload_status = ''failed'',
          resourceId = Some ''db1:col1'', errors = ErrorsArray [''{}'', ''x'']\<rparr>"
        "''{}''" "[''x'']"
        "\<lambda>s. if s = ''{}'' then Some (JObject []) else if s = ''7'' then Some (JNumber ''7'')
            else None"
        "JObject []"
        "\<lparr>base = ''/console'', region = ''fra'', project = ''p1'', collection_param = None\<rparr>"
        "Some ''db1''" "Some ''col1''"]
    missing_message_result
    [of "\<lparr>payload_id = ''m1'', source = ''csv'', payload_status = ''failed'',
          resourceId = Some ''db1:col1'', errors = ErrorsArray [''7'']\<rparr>"
        "''7''" "[]"
        "\<lambda>s. if s = ''{}'' then Some (JObject []) else if s = ''7'' then Some (JNumber ''7'')
            else None"
        "JNumber ''7''"
        "\<lparr>base = ''/console'', region = ''fra'', project = ''p1'', collection_param = None\<rparr>"
        "Some ''db1''" "Some ''col1''"]
  by simp

text \<open>
  Claim C10 fails for the entry \<^verbatim>\<open>null\<close>: it parses, it has no message field, and the
  toast carries the default message, not an undefined one.
\<close>

theorem null_entry_counterexample:
  "(\<lambda>s. if s = ''null'' then Some JNull else None) ''null'' = Some JNull
   \<and> showCompletionNotification
        \<lparr>base = ''/console'', region = ''fra'', project = ''p1'', collection_param = None\<rparr>
        (\<lambda>s. if s = ''null'' then Some JNull else None)
        (Some ''db1'') (Some ''col1'')
        \<lparr>payload_id = ''m1'', source = ''csv'', payload_status = ''failed'',
          resourceId = Some ''db1:col1'', errors = ErrorsArray [''null'']\<rparr>
     = [AddNotification
          \<lparr>ntype = ''error'',
           message = Value (JString
             ''Import failed. Check your CSV for correct fields and required values.''),
           isHtml = True, buttons = None\<rparr>]
   \<and> showCompletionNotification
        \<lparr>base = ''/console'', region = ''fra'', project = ''p1'', collection_param = None\<rparr>
        (\<lambda>s. if s = ''null'' then Some JNull else None)
        (Some ''db1'') (Some ''col1'')
        \<lparr>payload_id = ''m1'', source = ''csv'', payload_status = ''failed'',
          resourceId = Some ''db1:col1'', errors = ErrorsArray [''null'']\<rparr>
     \<noteq> [AddNotification
          \<lparr>ntype = ''error'', message = Undefined, isHtml = True, buttons = None\<rparr>]"
  by (simp add: showCompletionNotification_def Let_def parse_first_error_def
        default_errorMessage_def)

end
